theory Spec2Isabelle
  imports Complex_Main "HOL-Library.Word"
begin

unbundle bit_operations_syntax

section \<open>Question classifier (QuestionClassifier.ts)\<close>

text \<open>
  A JavaScript string is a sequence of UTF-16 code units. The keywords are ASCII literals;
  \<open>utf16\<close> gives the code units of such a literal.
\<close>

type_synonym code_unit = "16 word"
type_synonym jsstring = "code_unit list"

definition utf16 :: "string \<Rightarrow> jsstring" where
  "utf16 s = map (\<lambda>c. of_nat (of_char c)) s"

text \<open>
  The enum \<^verbatim>\<open>QuestionType\<close>. Its members are strings at run time; the keys of
  \<^verbatim>\<open>keywordMap\<close> are those strings, none of them an integer index, so
  \<^verbatim>\<open>Object.entries\<close> lists them in the order in which the literal writes them. The
  association list below keeps that order.
\<close>

datatype QuestionType = BEHAVIORAL | SYSTEM_DESIGN | OBJECT_ORIENTED_DESIGN | CODING | UNKNOWN

definition keywordMap :: "(QuestionType \<times> jsstring list) list" where
  "keywordMap =
    [(BEHAVIORAL, map utf16
       [''tell me about a time'', ''describe a situation'', ''give me an example'',
        ''how did you handle'', ''what would you do if'', ''leadership'', ''challenge'',
        ''conflict'', ''mistake'', ''failure'', ''success'', ''team'', ''difficult'',
        ''proud'', ''disagreement'']),
     (SYSTEM_DESIGN, map utf16
       [''design a system'', ''system architecture'', ''scalability'', ''distributed'',
        ''microservices'', ''database design'', ''how would you design'', ''architect'',
        ''scale'', ''throughput'', ''latency'', ''availability'', ''reliability'']),
     (OBJECT_ORIENTED_DESIGN, map utf16
       [''object oriented'', ''class diagram'', ''inheritance'', ''polymorphism'',
        ''encapsulation'', ''abstraction'', ''design pattern'', ''singleton'', ''factory'',
        ''observer'', ''strategy'']),
     (CODING, map utf16
       [''implement'', ''function'', ''algorithm'', ''complexity'', ''time complexity'',
        ''space complexity'', ''data structure'', ''array'', ''linked list'', ''tree'',
        ''graph'', ''hash table'', ''dynamic programming'', ''recursion'', ''iteration''])]"

fun startsWith :: "'a list \<Rightarrow> 'a list \<Rightarrow> bool" where
  "startsWith s [] = True"
| "startsWith [] (k # ks) = False"
| "startsWith (c # cs) (k # ks) = (c = k \<and> startsWith cs ks)"

text \<open>\<^verbatim>\<open>String.prototype.includes\<close>: the keyword occurs at some position of the text.\<close>

fun includes_str :: "'a list \<Rightarrow> 'a list \<Rightarrow> bool" where
  "includes_str [] k = (k = [])"
| "includes_str (c # cs) k = (startsWith (c # cs) k \<or> includes_str cs k)"

text \<open>The inner \<^verbatim>\<open>reduce\<close>: one point for every keyword of the list that the text includes.\<close>

definition matchCount :: "jsstring \<Rightarrow> jsstring list \<Rightarrow> nat" where
  "matchCount lowerText keywords =
     foldl (\<lambda>count keyword. count + (if includes_str lowerText keyword then 1 else 0)) 0 keywords"

definition scores :: "jsstring \<Rightarrow> (QuestionType \<times> nat) list" where
  "scores lowerText = map (\<lambda>(type, keywords). (type, matchCount lowerText keywords)) keywordMap"

text \<open>
  The outer \<^verbatim>\<open>reduce\<close> starts from \<^verbatim>\<open>{ type: UNKNOWN, score: 0 }\<close> and replaces the
  best entry only by a strictly larger score.
\<close>

definition bestMatch :: "(QuestionType \<times> nat) list \<Rightarrow> QuestionType \<times> nat" where
  "bestMatch ss =
     foldl (\<lambda>best current. if snd current > snd best then current else best) (UNKNOWN, 0) ss"

text \<open>
  \<^verbatim>\<open>quickClassify\<close>. \<^verbatim>\<open>String.prototype.toLowerCase\<close> belongs to the run time and
  follows the case tables of Unicode; it is the parameter \<open>toLowerCase\<close> here, so that what
  is proved holds for whatever it makes of a text.
\<close>

definition quickClassify :: "(jsstring \<Rightarrow> jsstring) \<Rightarrow> jsstring \<Rightarrow> QuestionType" where
  "quickClassify toLowerCase text =
     (let lowerText = toLowerCase text;
          best = bestMatch (scores lowerText)
      in if snd best > 0 then fst best else UNKNOWN)"

text \<open>An \<^verbatim>\<open>async\<close> function returns a promise; this one settles at once.\<close>

datatype 'a promise = Resolved 'a | Rejected string

definition detailedClassify ::
  "(jsstring \<Rightarrow> jsstring) \<Rightarrow> jsstring \<Rightarrow> QuestionType promise" where
  "detailedClassify toLowerCase text = Resolved (quickClassify toLowerCase text)"

subsection \<open>Vocabulary for the classifier's properties\<close>

text \<open>
  The keyword list of a category, the number of its keywords that occur in the lower-cased
  text, and the order in which the categories are enumerated.
\<close>

definition keywordsOf :: "QuestionType \<Rightarrow> jsstring list" where
  "keywordsOf c = (case map_of keywordMap c of Some ks \<Rightarrow> ks | None \<Rightarrow> [])"

definition hits :: "(jsstring \<Rightarrow> jsstring) \<Rightarrow> jsstring \<Rightarrow> QuestionType \<Rightarrow> nat" where
  "hits toLowerCase text c = length (filter (includes_str (toLowerCase text)) (keywordsOf c))"

definition priority :: "QuestionType list" where
  "priority = map fst keywordMap"

section \<open>PCM encoder (SystemAudioCapture.convertToPCM16)\<close>

text \<open>
  An element read from a \<^verbatim>\<open>Float32Array\<close> is a JavaScript number: a finite binary
  fraction, an infinity or NaN. Finite values are modelled by the rational they denote (the
  two zeros are one value here; both are stored as the integer 0). The arithmetic of the
  routine is exact on them: \<^verbatim>\<open>Math.min\<close> and \<^verbatim>\<open>Math.max\<close> return one of their
  arguments, a clamped single-precision value times \<^verbatim>\<open>0x8000\<close> is a change of exponent,
  and times \<^verbatim>\<open>0x7FFF\<close> it has at most 24 + 15 significant bits, which a double holds.
\<close>

datatype number = Finite rat | PosInfinity | NegInfinity | NaN

text \<open>The comparison \<^verbatim>\<open><\<close> of numbers: false as soon as one side is NaN.\<close>

fun less_num :: "number \<Rightarrow> number \<Rightarrow> bool" where
  "less_num NaN y = False"
| "less_num x NaN = False"
| "less_num (Finite a) (Finite b) = (a < b)"
| "less_num (Finite a) PosInfinity = True"
| "less_num (Finite a) NegInfinity = False"
| "less_num PosInfinity y = False"
| "less_num NegInfinity NegInfinity = False"
| "less_num NegInfinity y = True"

definition Math_min :: "number \<Rightarrow> number \<Rightarrow> number" where
  "Math_min a b = (if a = NaN \<or> b = NaN then NaN else if less_num b a then b else a)"

definition Math_max :: "number \<Rightarrow> number \<Rightarrow> number" where
  "Math_max a b = (if a = NaN \<or> b = NaN then NaN else if less_num a b then b else a)"

text \<open>A number times a finite constant.\<close>

fun times_num :: "number \<Rightarrow> rat \<Rightarrow> number" where
  "times_num (Finite a) k = Finite (a * k)"
| "times_num NaN k = NaN"
| "times_num PosInfinity k = (if k = 0 then NaN else if 0 < k then PosInfinity else NegInfinity)"
| "times_num NegInfinity k = (if k = 0 then NaN else if 0 < k then NegInfinity else PosInfinity)"

text \<open>
  Storing a number into an \<^verbatim>\<open>Int16Array\<close> applies ToInt16: NaN and the infinities
  become 0, a finite value loses its fraction (towards zero) and is reduced modulo \<open>2^16\<close>
  into the signed range, which is what \<open>word_of_int\<close> does at 16 bits.
\<close>

definition trunc_toward_zero :: "rat \<Rightarrow> int" where
  "trunc_toward_zero r = (if r < 0 then \<lceil>r\<rceil> else \<lfloor>r\<rfloor>)"

fun ToInt16 :: "number \<Rightarrow> 16 word" where
  "ToInt16 (Finite r) = word_of_int (trunc_toward_zero r)"
| "ToInt16 v = 0"

text \<open>The body of the loop, for the sample \<^verbatim>\<open>float32Array[i]\<close>.\<close>

definition pcm16_sample :: "number \<Rightarrow> 16 word" where
  "pcm16_sample x =
     (let s = Math_max (Finite (- 1)) (Math_min (Finite 1) x)
      in ToInt16 (if less_num s (Finite 0) then times_num s 32768 else times_num s 32767))"

text \<open>The loop writes every index of \<^verbatim>\<open>pcm16\<close> once, from the sample at that index.\<close>

primrec pcm16_fill :: "number list \<Rightarrow> 16 word list" where
  "pcm16_fill [] = []"
| "pcm16_fill (x # xs) = pcm16_sample x # pcm16_fill xs"

text \<open>
  \<^verbatim>\<open>new Uint8Array(pcm16.buffer)\<close> views the same memory as bytes, in the byte order of the
  host. Every platform Electron runs on stores the low byte first, and so does the model.
\<close>

definition int16_bytes :: "16 word \<Rightarrow> 8 word list" where
  "int16_bytes w = [ucast w, ucast (drop_bit 8 w)]"

definition convertToPCM16 :: "number list \<Rightarrow> 8 word list" where
  "convertToPCM16 float32Array = concat (map int16_bytes (pcm16_fill float32Array))"

subsection \<open>The encoder as the specification words it\<close>

text \<open>
  The reference conversion, written from the specification and not from the code. A sample
  is clamped to \<open>[-1, 1]\<close>, which takes the infinities to the ends of the range; a sample
  that is not a number has no amplitude to clamp, and the reference gives it no value. The
  clamped value is scaled by 32768 when negative and by 32767 otherwise. The specification
  calls the conversion lossy without naming the rounding; the reference keeps the whole part
  of the scaled value: the integer next to it on the side of zero. The integer is laid out
  as two bytes in two's complement, low byte first.
\<close>

fun clamp_ref :: "number \<Rightarrow> rat option" where
  "clamp_ref (Finite x) = Some (if x < - 1 then - 1 else if 1 < x then 1 else x)"
| "clamp_ref PosInfinity = Some 1"
| "clamp_ref NegInfinity = Some (- 1)"
| "clamp_ref NaN = None"

definition scale_ref :: "rat \<Rightarrow> rat" where
  "scale_ref s = (if s < 0 then s * 32768 else s * 32767)"

definition whole_ref :: "rat \<Rightarrow> int" where
  "whole_ref v = (if 0 \<le> v then \<lfloor>v\<rfloor> else - \<lfloor>- v\<rfloor>)"

definition encode_ref :: "number \<Rightarrow> int option" where
  "encode_ref x = map_option (\<lambda>s. whole_ref (scale_ref s)) (clamp_ref x)"

definition le16_ref :: "int \<Rightarrow> 8 word list" where
  "le16_ref n = [word_of_int (n mod 256), word_of_int (n div 256 mod 256)]"

text \<open>
  What the reference says of a whole sequence: the bytes of every sample it gives an integer
  for. Where it gives none, the two functions below take an integer, or two bytes, as
  parameter.
\<close>

definition ints_ref :: "int \<Rightarrow> number list \<Rightarrow> int list" where
  "ints_ref other xs = map (\<lambda>x. case encode_ref x of Some n \<Rightarrow> n | None \<Rightarrow> other) xs"

definition pcm_reference :: "8 word list \<Rightarrow> number list \<Rightarrow> 8 word list" where
  "pcm_reference other xs =
     concat (map (\<lambda>x. case encode_ref x of Some n \<Rightarrow> le16_ref n | None \<Rightarrow> other) xs)"

section \<open>Realtime transcription session manager (RealtimeTranscriptionManager)\<close>

subsection \<open>Values, faults and effects\<close>

text \<open>
  What a \<^verbatim>\<open>throw\<close> carries: the \<^verbatim>\<open>SyntaxError\<close> of \<^verbatim>\<open>JSON.parse\<close>, the
  \<^verbatim>\<open>TypeError\<close> of a property read on \<^verbatim>\<open>null\<close>, or any other error of the run
  time or of a library, with its message.
\<close>

datatype exn = SyntaxError | TypeError | Fault string

text \<open>JavaScript values as far as the manager handles them: parsed JSON, and error objects.\<close>

datatype jsval =
    JUndefined
  | JNull
  | JBool bool
  | JNum rat
  | JStr string
  | JArr "jsval list"
  | JObj "(string \<times> jsval) list"
  | JError exn

fun truthy :: "jsval \<Rightarrow> bool" where
  "truthy JUndefined = False"
| "truthy JNull = False"
| "truthy (JBool b) = b"
| "truthy (JNum n) = (n \<noteq> 0)"
| "truthy (JStr s) = (s \<noteq> [])"
| "truthy (JArr vs) = True"
| "truthy (JObj kvs) = True"
| "truthy (JError e) = True"

text \<open>
  A property read \<^verbatim>\<open>v.f\<close>: the member of an object, \<^verbatim>\<open>undefined\<close> where there is
  none, and a \<^verbatim>\<open>TypeError\<close> on \<^verbatim>\<open>null\<close> and \<^verbatim>\<open>undefined\<close>.
\<close>

fun read_prop :: "jsval \<Rightarrow> string \<Rightarrow> jsval" where
  "read_prop (JObj kvs) f = (case map_of kvs f of Some v \<Rightarrow> v | None \<Rightarrow> JUndefined)"
| "read_prop v f = JUndefined"

definition getField :: "jsval \<Rightarrow> string \<Rightarrow> exn + jsval" where
  "getField v f = (if v = JUndefined \<or> v = JNull then Inl TypeError else Inr (read_prop v f))"

text \<open>\<^verbatim>\<open>a || b\<close> on values.\<close>

definition or_else :: "jsval \<Rightarrow> jsval \<Rightarrow> jsval" where
  "or_else a b = (if truthy a then a else b)"

text \<open>
  Handles stand for the objects the platform hands out: sockets, media streams, audio
  contexts and audio nodes.
\<close>

type_synonym ws = nat
type_synonym stream = nat
type_synonym ctx = nat
type_synonym node = nat

datatype target = ToNode node | ToDestination ctx

text \<open>
  What a call does to the world outside the object, in order: console output (the text
  only), events emitted to the listeners of the manager, requests, and calls on sockets,
  streams and audio nodes. \<open>Emit\<close> records an event handed to the listeners of the
  manager, with its arguments; what a listener does with it belongs to the callers of the
  manager and is not modelled.
\<close>

datatype effect =
    ConsoleError string
  | ConsoleLog string
  | Emit string "jsval list"
  | HttpPost string "(string \<times> string) list" string
  | WsNew ws string
  | WsOn ws string
  | WsSend ws string
  | WsClose ws
  | TrackStop stream
  | SetOnAudioProcess node
  | NodeConnect node target
  | NodeDisconnect node

text \<open>
  The run time and the libraries the manager calls, as they answer during one call:
  \<^verbatim>\<open>JSON.parse\<close> and \<^verbatim>\<open>JSON.stringify\<close>, \<^verbatim>\<open>Date.now()\<close>,
  \<^verbatim>\<open>Buffer.from(bytes).toString('base64')\<close>, \<^verbatim>\<open>new WebSocket(endpoint)\<close>, \<^verbatim>\<open>send\<close>
  on a socket (\<open>Some e\<close> when it throws \<open>e\<close>), and \<^verbatim>\<open>fetch\<close> followed by
  \<^verbatim>\<open>response.json()\<close>. \<open>Inl e\<close> is a throw or a rejection.
\<close>

record runtime =
  JSON_parse :: "string \<Rightarrow> exn + jsval"
  JSON_stringify :: "jsval \<Rightarrow> string"
  Date_now :: rat
  toBase64 :: "8 word list \<Rightarrow> exn + string"
  new_WebSocket :: "string \<Rightarrow> exn + ws"
  ws_send :: "ws \<Rightarrow> string \<Rightarrow> exn option"
  fetch_json :: "string \<Rightarrow> exn + jsval"

subsection \<open>The object and its methods\<close>

text \<open>
  The fields of the class. \<^verbatim>\<open>sessionToken\<close> holds whatever truthy value the response
  carried, \<open>JNull\<close> for \<^verbatim>\<open>null\<close>.
\<close>

record manager =
  apiKey :: string
  provider :: string
  wsConnection :: "ws option"
  sessionToken :: jsval
  isConnected :: bool

text \<open>
  A call returns a value or lets a fault escape (\<open>Inl\<close>), leaves the object in a state, and
  has effects.
\<close>

type_synonym ('a, 's) call = "(exn + 'a) \<times> 's \<times> effect list"

definition returned :: "('a, 's) call \<Rightarrow> exn + 'a" where
  "returned c = fst c"

definition state_after :: "('a, 's) call \<Rightarrow> 's" where
  "state_after c = fst (snd c)"

definition effects_of :: "('a, 's) call \<Rightarrow> effect list" where
  "effects_of c = snd (snd c)"

definition new_RealtimeTranscriptionManager :: "string \<Rightarrow> string option \<Rightarrow> manager" where
  "new_RealtimeTranscriptionManager key prov =
     \<lparr>apiKey = key, provider = (case prov of None \<Rightarrow> ''openai'' | Some p \<Rightarrow> p),
      wsConnection = None, sessionToken = JNull, isConnected = False\<rparr>"

definition openai_session_body :: jsval where
  "openai_session_body =
     JObj [(''input_audio_transcription'',
              JObj [(''model'', JStr ''gpt-4o-mini-transcribe''),
                    (''prompt'', JStr ''This is a technical job interview about programming, system design, and algorithms.'')]),
           (''turn_detection'',
              JObj [(''type'', JStr ''server_vad''), (''threshold'', JNum (1 / 2)),
                    (''prefix_padding_ms'', JNum 300), (''silence_duration_ms'', JNum 500)]),
           (''input_audio_noise_reduction'', JObj [(''type'', JStr ''near_field'')]),
           (''input_audio_format'', JStr ''pcm16'')]"

definition deepseek_session_body :: jsval where
  "deepseek_session_body =
     JObj [(''model'', JStr ''deepseek-speech''), (''format'', JStr ''pcm16''),
           (''sample_rate'', JNum 16000), (''language'', JStr ''en''),
           (''task'', JStr ''transcribe''),
           (''prompt'', JStr ''This is a technical job interview about programming, system design, and algorithms.'')]"

definition session_request :: "runtime \<Rightarrow> manager \<Rightarrow> string \<Rightarrow> jsval \<Rightarrow> effect" where
  "session_request rt m url body =
     HttpPost url
       [(''Authorization'', ''Bearer '' @ apiKey m), (''Content-Type'', ''application/json'')]
       (JSON_stringify rt body)"

text \<open>
  \<^verbatim>\<open>createOpenAISession\<close>: the token is \<^verbatim>\<open>data.client_secret.value\<close> when
  \<^verbatim>\<open>data.client_secret && data.client_secret.value\<close> is truthy. Every fault inside the
  \<^verbatim>\<open>try\<close> ends in the \<^verbatim>\<open>catch\<close>, which logs and returns false.
\<close>

definition createOpenAISession :: "runtime \<Rightarrow> manager \<Rightarrow> (bool, manager) call" where
  "createOpenAISession rt m =
     (let url = ''https://api.openai.com/v1/realtime/transcription_sessions'';
          req = session_request rt m url openai_session_body;
          caught = (Inr False, m, [req, ConsoleError ''Error creating OpenAI transcription session''])
      in case fetch_json rt url of
           Inl e \<Rightarrow> caught
         | Inr data \<Rightarrow>
             (case getField data ''client_secret'' of
                Inl e \<Rightarrow> caught
              | Inr secret \<Rightarrow>
                  if truthy secret \<and> truthy (read_prop secret ''value'')
                  then (Inr True, m\<lparr>sessionToken := read_prop secret ''value''\<rparr>, [req])
                  else (Inr False, m, [req, ConsoleError ''Failed to obtain OpenAI session token''])))"

definition createDeepSeekSession :: "runtime \<Rightarrow> manager \<Rightarrow> (bool, manager) call" where
  "createDeepSeekSession rt m =
     (let url = ''https://api.deepseek.com/v1/audio/transcription_sessions'';
          req = session_request rt m url deepseek_session_body;
          caught = (Inr False, m, [req, ConsoleError ''Error creating DeepSeek transcription session''])
      in case fetch_json rt url of
           Inl e \<Rightarrow> caught
         | Inr data \<Rightarrow>
             (case getField data ''session_token'' of
                Inl e \<Rightarrow> caught
              | Inr token \<Rightarrow>
                  if truthy token
                  then (Inr True, m\<lparr>sessionToken := token\<rparr>, [req])
                  else (Inr False, m, [req, ConsoleError ''Failed to obtain DeepSeek session token''])))"

definition createTranscriptionSession :: "runtime \<Rightarrow> manager \<Rightarrow> (bool, manager) call" where
  "createTranscriptionSession rt m =
     (if provider m = ''deepseek'' then createDeepSeekSession rt m else createOpenAISession rt m)"

text \<open>
  \<^verbatim>\<open>connectToWebSocket\<close>. The guard \<^verbatim>\<open>!this.sessionToken\<close> comes before the
  \<^verbatim>\<open>try\<close>; inside it the socket is made, stored, and given its three handlers.
\<close>

definition wsEndpoint :: "manager \<Rightarrow> string" where
  "wsEndpoint m =
     (if provider m = ''deepseek'' then ''wss://api.deepseek.com/v1/audio/realtime''
      else ''wss://api.openai.com/v1/audio/realtime'')"

definition connectToWebSocket :: "runtime \<Rightarrow> manager \<Rightarrow> (bool, manager) call" where
  "connectToWebSocket rt m =
     (if truthy (sessionToken m)
      then (case new_WebSocket rt (wsEndpoint m) of
              Inl e \<Rightarrow> (Inr False, m, [ConsoleError ''Error connecting to WebSocket''])
            | Inr w \<Rightarrow>
                (Inr True, m\<lparr>wsConnection := Some w\<rparr>,
                 [WsNew w (wsEndpoint m), WsOn w ''open'', WsOn w ''error'', WsOn w ''close'']))
      else (Inr False, m, [ConsoleError ''No session token available'']))"

text \<open>\<^verbatim>\<open>setupWebSocketListeners\<close> puts the message handler on the current socket, if any.\<close>

definition setupWebSocketListeners :: "manager \<Rightarrow> effect list" where
  "setupWebSocketListeners m =
     (case wsConnection m of None \<Rightarrow> [] | Some w \<Rightarrow> [WsOn w ''message''])"

text \<open>
  The handler of \<^verbatim>\<open>open\<close>. It has no \<^verbatim>\<open>try\<close>: a throwing \<^verbatim>\<open>send\<close> leaves it
  before the flag is set. The send goes to whatever socket the field holds then.
\<close>

definition on_open :: "runtime \<Rightarrow> manager \<Rightarrow> (unit, manager) call" where
  "on_open rt m =
     (let authMessage = JSON_stringify rt (JObj [(''type'', JStr ''auth''), (''token'', sessionToken m)]);
          opened = m\<lparr>isConnected := True\<rparr>;
          rest = setupWebSocketListeners opened @ [Emit ''connected'' []]
      in case wsConnection m of
           None \<Rightarrow> (Inr (), opened, rest)
         | Some w \<Rightarrow>
             (case ws_send rt w authMessage of
                Some e \<Rightarrow> (Inl e, m, [])
              | None \<Rightarrow> (Inr (), opened, WsSend w authMessage # rest)))"

text \<open>
  The handlers of \<^verbatim>\<open>error\<close> and \<^verbatim>\<open>close\<close>. The manager is a Node
  \<^verbatim>\<open>EventEmitter\<close>, and the class attaches no listener to itself. For the event named
  \<^verbatim>\<open>error\<close>, and for that one alone, \<^verbatim>\<open>emit\<close> on an emitter that has no listener
  for it throws the error it was given; so the handler of \<^verbatim>\<open>error\<close> takes, as
  \<open>listening\<close>, whether a caller has attached a listener for \<^verbatim>\<open>error\<close> by then.
\<close>

definition on_error :: "bool \<Rightarrow> manager \<Rightarrow> exn \<Rightarrow> (unit, manager) call" where
  "on_error listening m error =
     (if listening
      then (Inr (), m, [ConsoleError ''WebSocket error'', Emit ''error'' [JError error]])
      else (Inl error, m, [ConsoleError ''WebSocket error'']))"

definition on_close :: "manager \<Rightarrow> (unit, manager) call" where
  "on_close m = (Inr (), m\<lparr>isConnected := False\<rparr>, [Emit ''disconnected'' []])"

text \<open>
  The two translators of inbound messages. The \<^verbatim>\<open>switch\<close> reads \<^verbatim>\<open>message.type\<close>
  first, which throws on \<^verbatim>\<open>null\<close>; after that every read is on the same value and
  cannot throw. Messages of any other type are logged only.
\<close>

definition handleOpenAIMessage :: "jsval \<Rightarrow> exn + effect list" where
  "handleOpenAIMessage message =
     (case getField message ''type'' of
        Inl e \<Rightarrow> Inl e
      | Inr t \<Rightarrow>
          Inr (if t = JStr ''conversation.item.input_audio_transcription.delta'' then
                 [Emit ''transcription-delta''
                    [JObj [(''text'', read_prop message ''delta''),
                           (''itemId'', read_prop message ''item_id''),
                           (''contentIndex'', read_prop message ''content_index'')]]]
               else if t = JStr ''conversation.item.input_audio_transcription.completed'' then
                 [Emit ''transcription-completed''
                    [JObj [(''text'', read_prop message ''transcript''),
                           (''itemId'', read_prop message ''item_id''),
                           (''contentIndex'', read_prop message ''content_index'')]]]
               else if t = JStr ''input_audio_buffer.speech_started'' then
                 [Emit ''speech-started''
                    [JObj [(''audioStartMs'', read_prop message ''audio_start_ms''),
                           (''itemId'', read_prop message ''item_id'')]]]
               else if t = JStr ''input_audio_buffer.speech_stopped'' then
                 [Emit ''speech-stopped''
                    [JObj [(''audioEndMs'', read_prop message ''audio_end_ms''),
                           (''itemId'', read_prop message ''item_id'')]]]
               else if t = JStr ''error'' then
                 [ConsoleError ''API error'', Emit ''api-error'' [read_prop message ''error'']]
               else [ConsoleLog ''OpenAI WebSocket message'']))"

definition handleDeepSeekMessage :: "jsval \<Rightarrow> exn + effect list" where
  "handleDeepSeekMessage message =
     (case getField message ''type'' of
        Inl e \<Rightarrow> Inl e
      | Inr t \<Rightarrow>
          Inr (if t = JStr ''transcription.partial'' then
                 [Emit ''transcription-delta''
                    [JObj [(''text'', read_prop message ''text''),
                           (''itemId'', or_else (read_prop message ''id'') (JStr ''0'')),
                           (''contentIndex'', JNum 0)]]]
               else if t = JStr ''transcription.final'' then
                 [Emit ''transcription-completed''
                    [JObj [(''text'', read_prop message ''text''),
                           (''itemId'', or_else (read_prop message ''id'') (JStr ''0'')),
                           (''contentIndex'', JNum 0)]]]
               else if t = JStr ''speech.started'' then
                 [Emit ''speech-started''
                    [JObj [(''audioStartMs'', read_prop message ''timestamp''),
                           (''itemId'', or_else (read_prop message ''id'') (JStr ''0''))]]]
               else if t = JStr ''speech.stopped'' then
                 [Emit ''speech-stopped''
                    [JObj [(''audioEndMs'', read_prop message ''timestamp''),
                           (''itemId'', or_else (read_prop message ''id'') (JStr ''0''))]]]
               else if t = JStr ''error'' then
                 [ConsoleError ''DeepSeek API error'', Emit ''api-error'' [read_prop message ''error'']]
               else [ConsoleLog ''DeepSeek WebSocket message'']))"

text \<open>
  The handler of \<^verbatim>\<open>message\<close> that \<^verbatim>\<open>setupWebSocketListeners\<close> registers, on the
  text of the frame (\<^verbatim>\<open>data.toString()\<close>). The body of its \<^verbatim>\<open>try\<close> comes first, then
  the handler with its \<^verbatim>\<open>catch\<close>, which logs and returns.
\<close>

definition on_message_try :: "runtime \<Rightarrow> manager \<Rightarrow> string \<Rightarrow> exn + effect list" where
  "on_message_try rt m data =
     (case JSON_parse rt data of
        Inl e \<Rightarrow> Inl e
      | Inr message \<Rightarrow>
          if provider m = ''deepseek'' then handleDeepSeekMessage message
          else handleOpenAIMessage message)"

definition on_message :: "runtime \<Rightarrow> manager \<Rightarrow> string \<Rightarrow> (unit, manager) call" where
  "on_message rt m data =
     (case on_message_try rt m data of
        Inl e \<Rightarrow> (Inr (), m, [ConsoleError ''Error processing WebSocket message''])
      | Inr effs \<Rightarrow> (Inr (), m, effs))"

text \<open>
  \<^verbatim>\<open>sendAudioChunk\<close>. The envelope depends on the provider; the body of the
  \<^verbatim>\<open>try\<close> encodes, builds the envelope and sends; the method itself guards on the
  socket and the flag, and turns a fault of the body into \<^verbatim>\<open>false\<close>.
\<close>

definition audioMessage :: "runtime \<Rightarrow> manager \<Rightarrow> string \<Rightarrow> string" where
  "audioMessage rt m base64Audio =
     (if provider m = ''deepseek''
      then JSON_stringify rt
             (JObj [(''type'', JStr ''audio.chunk''), (''audio'', JStr base64Audio),
                    (''timestamp'', JNum (Date_now rt))])
      else JSON_stringify rt
             (JObj [(''type'', JStr ''input_audio_buffer.append''), (''audio'', JStr base64Audio)]))"

definition sendAudioChunk_try :: "runtime \<Rightarrow> manager \<Rightarrow> ws \<Rightarrow> 8 word list \<Rightarrow> exn + effect list" where
  "sendAudioChunk_try rt m w audioData =
     (case toBase64 rt audioData of
        Inl e \<Rightarrow> Inl e
      | Inr base64Audio \<Rightarrow>
          (case ws_send rt w (audioMessage rt m base64Audio) of
             Some e \<Rightarrow> Inl e
           | None \<Rightarrow> Inr [WsSend w (audioMessage rt m base64Audio)]))"

definition sendAudioChunk :: "runtime \<Rightarrow> manager \<Rightarrow> 8 word list \<Rightarrow> (bool, manager) call" where
  "sendAudioChunk rt m audioData =
     (case wsConnection m of
        None \<Rightarrow> (Inr False, m, [])
      | Some w \<Rightarrow>
          if isConnected m
          then (case sendAudioChunk_try rt m w audioData of
                  Inl e \<Rightarrow> (Inr False, m, [ConsoleError ''Error sending audio chunk''])
                | Inr effs \<Rightarrow> (Inr True, m, effs))
          else (Inr False, m, []))"

text \<open>\<^verbatim>\<open>close\<close>: everything it does is under the test of the socket field.\<close>

definition close :: "manager \<Rightarrow> (unit, manager) call" where
  "close m =
     (case wsConnection m of
        None \<Rightarrow> (Inr (), m, [])
      | Some w \<Rightarrow> (Inr (), m\<lparr>wsConnection := None, isConnected := False\<rparr>, [WsClose w]))"

definition isActive :: "manager \<Rightarrow> bool" where
  "isActive m = isConnected m"

definition getProvider :: "manager \<Rightarrow> string" where
  "getProvider m = provider m"

section \<open>Audio capture pipeline (SystemAudioCapture)\<close>

text \<open>
  The platform as it answers during one call: \<^verbatim>\<open>desktopCapturer.getSources\<close>,
  \<^verbatim>\<open>getUserMedia\<close> for a source id, \<^verbatim>\<open>new AudioContext\<close> at a sample rate, and the
  two node constructors of a context. \<open>Inl e\<close> is a throw or a rejected promise.
\<close>

datatype source = Source (source_id: string)

record platform =
  getSources :: "exn + source list"
  getUserMedia :: "string \<Rightarrow> exn + stream"
  new_AudioContext :: "nat \<Rightarrow> exn + ctx"
  createMediaStreamSource :: "ctx \<Rightarrow> stream \<Rightarrow> exn + node"
  createScriptProcessor :: "ctx \<Rightarrow> nat \<Rightarrow> exn + node"

text \<open>
  The fields of the class, but for \<^verbatim>\<open>transcriptionManager\<close>: that one is a reference to
  an object shared with the caller, so the methods below take the manager as it is at the
  time of the call.
\<close>

record capture =
  mediaStream :: "stream option"
  audioContext :: "ctx option"
  sourceNode :: "node option"
  processorNode :: "node option"
  isCapturing :: bool

definition new_SystemAudioCapture :: capture where
  "new_SystemAudioCapture =
     \<lparr>mediaStream = None, audioContext = None, sourceNode = None, processorNode = None,
      isCapturing = False\<rparr>"

definition sampleRate :: "manager \<Rightarrow> nat" where
  "sampleRate mgr = (if getProvider mgr = ''deepseek'' then 16000 else 24000)"

definition sampleRate_text :: "manager \<Rightarrow> string" where
  "sampleRate_text mgr = (if getProvider mgr = ''deepseek'' then ''16000'' else ''24000'')"

definition initialize :: "manager \<Rightarrow> platform \<Rightarrow> capture \<Rightarrow> (bool, capture) call" where
  "initialize mgr pf c =
     (let logged = ConsoleLog (''Initializing AudioContext with sample rate '' @ sampleRate_text mgr
                     @ ''Hz for '' @ getProvider mgr)
      in case new_AudioContext pf (sampleRate mgr) of
           Inl e \<Rightarrow> (Inr False, c, [logged, ConsoleError ''Failed to initialize audio context''])
         | Inr a \<Rightarrow> (Inr True, c\<lparr>audioContext := Some a\<rparr>, [logged]))"

definition bufferSize :: "manager \<Rightarrow> nat" where
  "bufferSize mgr = (if getProvider mgr = ''deepseek'' then 2048 else 4096)"

text \<open>The \<^verbatim>\<open>catch\<close> of \<^verbatim>\<open>startCapturing\<close>: what was assigned before the fault stays.\<close>

definition capture_caught :: "capture \<Rightarrow> effect list \<Rightarrow> (bool, capture) call" where
  "capture_caught c effs = (Inr False, c, effs @ [ConsoleError ''Error capturing system audio''])"

text \<open>
  \<^verbatim>\<open>startCapturing\<close>, its awaits taken in sequence: the early return when already
  capturing, the enumeration and its empty case, the stream of the first source, the lazy
  \<^verbatim>\<open>initialize\<close>, the two nodes, the callback and the connections.
\<close>

definition startCapturing :: "manager \<Rightarrow> platform \<Rightarrow> capture \<Rightarrow> (bool, capture) call" where
  "startCapturing mgr pf c =
     (if isCapturing c then (Inr True, c, [])
      else case getSources pf of
        Inl e \<Rightarrow> capture_caught c []
      | Inr sources \<Rightarrow>
          (case sources of
             [] \<Rightarrow> (Inr False, c, [ConsoleError ''No screen or window sources found''])
           | first # others \<Rightarrow>
               (case getUserMedia pf (source_id first) of
                  Inl e \<Rightarrow> capture_caught c []
                | Inr stream \<Rightarrow>
                    (let c1 = c\<lparr>mediaStream := Some stream\<rparr>;
                         init = (case audioContext c1 of
                                   None \<Rightarrow> initialize mgr pf c1
                                 | Some a \<Rightarrow> (Inr True, c1, []));
                         c2 = state_after init;
                         effs = effects_of init
                     in case audioContext c2 of
                          None \<Rightarrow> (Inr False, c2, effs @ [ConsoleError ''Failed to initialize AudioContext''])
                        | Some a \<Rightarrow>
                            (case createMediaStreamSource pf a stream of
                               Inl e \<Rightarrow> capture_caught c2 effs
                             | Inr sn \<Rightarrow>
                                 (case createScriptProcessor pf a (bufferSize mgr) of
                                    Inl e \<Rightarrow> capture_caught (c2\<lparr>sourceNode := Some sn\<rparr>) effs
                                  | Inr pn \<Rightarrow>
                                      (Inr True,
                                       c2\<lparr>sourceNode := Some sn, processorNode := Some pn,
                                          isCapturing := True\<rparr>,
                                       effs @ [SetOnAudioProcess pn, NodeConnect sn (ToNode pn),
                                               NodeConnect pn (ToDestination a)])))))))"

text \<open>
  The \<^verbatim>\<open>onaudioprocess\<close> callback on the samples of channel 0: encode, hand the bytes to
  the manager, and drop its answer.
\<close>

definition onaudioprocess :: "runtime \<Rightarrow> manager \<Rightarrow> number list \<Rightarrow> (unit, manager) call" where
  "onaudioprocess rt mgr inputData =
     (let sent = sendAudioChunk rt mgr (convertToPCM16 inputData)
      in (map_sum (\<lambda>e. e) (\<lambda>b. ()) (returned sent), state_after sent, effects_of sent))"

definition stopCapturing :: "capture \<Rightarrow> (unit, capture) call" where
  "stopCapturing c =
     (if isCapturing c
      then (let e1 = (case mediaStream c of None \<Rightarrow> [] | Some s \<Rightarrow> [TrackStop s]);
                c1 = c\<lparr>mediaStream := None\<rparr>;
                dropped = (processorNode c1 \<noteq> None \<and> audioContext c1 \<noteq> None);
                e2 = (case processorNode c1 of
                        None \<Rightarrow> []
                      | Some p \<Rightarrow> if dropped then [NodeDisconnect p] else []);
                c2 = (if dropped then c1\<lparr>processorNode := None\<rparr> else c1);
                e3 = (case sourceNode c2 of None \<Rightarrow> [] | Some n \<Rightarrow> [NodeDisconnect n]);
                c3 = c2\<lparr>sourceNode := None\<rparr>
            in (Inr (), c3\<lparr>isCapturing := False\<rparr>, e1 @ e2 @ e3))
      else (Inr (), c, []))"

definition SystemAudioCapture_isActive :: "capture \<Rightarrow> bool" where
  "SystemAudioCapture_isActive c = isCapturing c"

section \<open>Sample runs\<close>

text \<open>
  Base64 as a run time computes it when nothing fails, and a run time for the examples: its
  parser knows one text, its serialiser prints a placeholder, and the faults of encoding and
  sending and the socket handed out are its parameters. The session response is the one of
  the specification's first scenario.
\<close>

definition base64_alphabet :: string where
  "base64_alphabet = ''ABCDEFGHIJKLMNOPQRSTUVWXYZabcdefghijklmnopqrstuvwxyz0123456789+/''"

definition base64_char :: "8 word \<Rightarrow> char" where
  "base64_char i = base64_alphabet ! unat i"

fun base64_encode :: "8 word list \<Rightarrow> string" where
  "base64_encode (a # b # c # rest) =
     [base64_char (drop_bit 2 a), base64_char (push_bit 4 (a AND 3) OR drop_bit 4 b),
      base64_char (push_bit 2 (b AND 15) OR drop_bit 6 c), base64_char (c AND 63)]
     @ base64_encode rest"
| "base64_encode [a, b] =
     [base64_char (drop_bit 2 a), base64_char (push_bit 4 (a AND 3) OR drop_bit 4 b),
      base64_char (push_bit 2 (b AND 15)), CHR ''='']"
| "base64_encode [a] =
     [base64_char (drop_bit 2 a), base64_char (push_bit 4 (a AND 3)), CHR ''='', CHR ''='']"
| "base64_encode [] = []"

definition sample_runtime :: "exn option \<Rightarrow> exn option \<Rightarrow> ws \<Rightarrow> runtime" where
  "sample_runtime encode_fault send_fault socket =
     \<lparr>JSON_parse = (\<lambda>s. if s = ''null'' then Inr JNull else Inl SyntaxError),
      JSON_stringify = (\<lambda>v. ''(json)''),
      Date_now = 1700000000000,
      toBase64 = (\<lambda>bytes. case encode_fault of Some e \<Rightarrow> Inl e | None \<Rightarrow> Inr (base64_encode bytes)),
      new_WebSocket = (\<lambda>endpoint. Inr socket),
      ws_send = (\<lambda>w message. send_fault),
      fetch_json = (\<lambda>url. Inr (JObj [(''client_secret'', JObj [(''value'', JStr ''tok123'')])]))\<rparr>"

text \<open>
  A lower-casing for the examples. It agrees with \<^verbatim>\<open>toLowerCase\<close> on the code units
  whose lower-case form holds a letter a to z: the capitals A to Z, the Kelvin sign U+212A,
  which becomes k, and U+0130, which becomes i followed by U+0307. It leaves the others as
  they are.
\<close>

definition sample_toLowerCase_unit :: "code_unit \<Rightarrow> code_unit list" where
  "sample_toLowerCase_unit u =
     (if 0x41 \<le> u \<and> u \<le> 0x5A then [u + 0x20]
      else if u = 0x212A then [0x6B]
      else if u = 0x130 then [0x69, 0x307]
      else [u])"

definition sample_toLowerCase :: "jsstring \<Rightarrow> jsstring" where
  "sample_toLowerCase text = concat (map sample_toLowerCase_unit text)"

text \<open>A manager that negotiated its token, connected, and whose socket 1 has opened.\<close>

definition fresh_manager :: manager where
  "fresh_manager = new_RealtimeTranscriptionManager ''sk-test'' None"

definition negotiated_manager :: manager where
  "negotiated_manager = state_after (createTranscriptionSession (sample_runtime None None 1) fresh_manager)"

definition connected_manager :: manager where
  "connected_manager =
     state_after (on_open (sample_runtime None None 1)
       (state_after (connectToWebSocket (sample_runtime None None 1) negotiated_manager)))"

text \<open>
  A manager that connected twice (sockets 1 and 2) before either socket opened, was closed,
  which closes socket 2 only, and then saw socket 1 open.
\<close>

definition twice_connected_manager :: manager where
  "twice_connected_manager =
     state_after (on_open (sample_runtime None None 1)
       (state_after (close
         (state_after (connectToWebSocket (sample_runtime None None 2)
           (state_after (connectToWebSocket (sample_runtime None None 1) negotiated_manager)))))))"

text \<open>A platform with no capturable source.\<close>

definition bare_platform :: platform where
  "bare_platform =
     \<lparr>getSources = Inr [], getUserMedia = (\<lambda>i. Inl (Fault ''NotFoundError'')),
      new_AudioContext = (\<lambda>rate. Inr 1), createMediaStreamSource = (\<lambda>a s. Inr 2),
      createScriptProcessor = (\<lambda>a n. Inr 3)\<rparr>"

section \<open>Properties of the classifier\<close>

lemma startsWith_iff: "startsWith t k \<longleftrightarrow> (\<exists>s. t = k @ s)"
  by (induction t k rule: startsWith.induct) auto

lemma includes_str_iff: "includes_str t k \<longleftrightarrow> (\<exists>p s. t = p @ k @ s)"
proof (induction t)
  case Nil
  show ?case by auto
next
  case (Cons c cs)
  show ?case
  proof
    assume "includes_str (c # cs) k"
    then consider "startsWith (c # cs) k" | "includes_str cs k" by auto
    then show "\<exists>p s. c # cs = p @ k @ s"
    proof cases
      case 1
      then obtain s where "c # cs = k @ s" by (auto simp: startsWith_iff)
      then have "c # cs = [] @ k @ s" by simp
      then show ?thesis by blast
    next
      case 2
      then obtain p s where "cs = p @ k @ s" using Cons.IH by blast
      then have "c # cs = (c # p) @ k @ s" by simp
      then show ?thesis by blast
    qed
  next
    assume "\<exists>p s. c # cs = p @ k @ s"
    then obtain p s where ps: "c # cs = p @ k @ s" by blast
    show "includes_str (c # cs) k"
    proof (cases p)
      case Nil
      with ps have "startsWith (c # cs) k" by (auto simp: startsWith_iff)
      then show ?thesis by simp
    next
      case (Cons a p')
      with ps have "cs = p' @ k @ s" by simp
      then have "includes_str cs k" using Cons.IH by blast
      then show ?thesis by simp
    qed
  qed
qed

lemma count_foldl:
  "foldl (\<lambda>count keyword. count + (if P keyword then 1 else 0)) (a::nat) ks
     = a + length (filter P ks)"
  by (induction ks arbitrary: a) auto

lemma matchCount_hits: "matchCount (lower text) (keywordsOf c) = hits lower text c"
  by (simp add: matchCount_def hits_def count_foldl)

lemma scores_hits:
  "scores (lower text) =
     [(BEHAVIORAL, hits lower text BEHAVIORAL), (SYSTEM_DESIGN, hits lower text SYSTEM_DESIGN),
      (OBJECT_ORIENTED_DESIGN, hits lower text OBJECT_ORIENTED_DESIGN),
      (CODING, hits lower text CODING)]"
  unfolding matchCount_hits [symmetric]
  by (simp add: scores_def keywordMap_def keywordsOf_def)


text \<open>A count is positive exactly when some keyword of the list is a substring.\<close>

lemma hits_pos_iff:
  "0 < hits lower text c \<longleftrightarrow> (\<exists>k\<in>set (keywordsOf c). \<exists>p s. lower text = p @ k @ s)"
proof -
  have "0 < hits lower text c \<longleftrightarrow> (\<exists>k\<in>set (keywordsOf c). includes_str (lower text) k)"
    by (auto simp: hits_def filter_empty_conv)
  then show ?thesis by (simp add: includes_str_iff)
qed

lemma priority_eq: "priority = [BEHAVIORAL, SYSTEM_DESIGN, OBJECT_ORIENTED_DESIGN, CODING]"
  by (simp add: priority_def keywordMap_def)

lemma all_QuestionType:
  "(\<forall>c. P c) \<longleftrightarrow>
     P BEHAVIORAL \<and> P SYSTEM_DESIGN \<and> P OBJECT_ORIENTED_DESIGN \<and> P CODING \<and> P UNKNOWN"
  by (metis QuestionType.exhaust)

lemma quickClassify_hits:
  "quickClassify lower text =
     (let b = hits lower text BEHAVIORAL; s = hits lower text SYSTEM_DESIGN;
          d = hits lower text OBJECT_ORIENTED_DESIGN; c = hits lower text CODING;
          m1 = (if b > 0 then (BEHAVIORAL, b) else (UNKNOWN, 0));
          m2 = (if s > snd m1 then (SYSTEM_DESIGN, s) else m1);
          m3 = (if d > snd m2 then (OBJECT_ORIENTED_DESIGN, d) else m2);
          m4 = (if c > snd m3 then (CODING, c) else m3)
      in if snd m4 > 0 then fst m4 else UNKNOWN)"
  by (simp add: quickClassify_def scores_hits bestMatch_def Let_def)



lemma quickClassify_first_max:
  assumes "i < length priority" and "0 < hits lower text (priority ! i)"
    and "\<forall>c'. hits lower text c' \<le> hits lower text (priority ! i)"
    and "\<forall>j<i. hits lower text (priority ! j) < hits lower text (priority ! i)"
  shows "quickClassify lower text = priority ! i"
proof -
  from assms(1) consider "i = 0" | "i = 1" | "i = 2" | "i = 3"
    by (auto simp: priority_eq less_Suc_eq numeral_eq_Suc)
  then show ?thesis
  proof cases
    case 1
    with assms show ?thesis
      by (auto simp: priority_eq quickClassify_hits Let_def all_QuestionType not_less)
  next
    case 2
    with assms(2,3) assms(4)[rule_format, of 0] show ?thesis
      by (auto simp: priority_eq quickClassify_hits Let_def all_QuestionType not_less)
  next
    case 3
    with assms(2,3) assms(4)[rule_format, of 0] assms(4)[rule_format, of 1] show ?thesis
      by (auto simp: priority_eq quickClassify_hits Let_def all_QuestionType not_less)
  next
    case 4
    with assms(2,3) assms(4)[rule_format, of 0] assms(4)[rule_format, of 1]
      assms(4)[rule_format, of 2] show ?thesis
      by (auto simp: priority_eq quickClassify_hits Let_def all_QuestionType not_less)
  qed
qed

text \<open>
  Two categories that are level at the highest count, which is not zero, resolve to the one
  that comes first, provided none before it is level with them.
\<close>

lemma quickClassify_tie:
  assumes "i < j" and "j < length priority"
    and "hits lower text (priority ! i) = hits lower text (priority ! j)"
    and "0 < hits lower text (priority ! i)"
    and "\<forall>c'. hits lower text c' \<le> hits lower text (priority ! i)"
    and "\<forall>k<i. hits lower text (priority ! k) < hits lower text (priority ! i)"
  shows "quickClassify lower text = priority ! i"
  using assms by (intro quickClassify_first_max) auto






text \<open>
  The lower-cased text decides, not the text as written: with the Kelvin sign in place of
  the letter k, the word mistake still counts for Behavioral. And the specification's third
  scenario.
\<close>

lemma quickClassify_kelvin:
  "quickClassify sample_toLowerCase (utf16 ''mista'' @ [0x212A] @ utf16 ''e'') = BEHAVIORAL"
  by code_simp

lemma quickClassify_scenario_3:
  "quickClassify sample_toLowerCase
     (utf16 ''Tell me about a time you faced conflict with a teammate'') = BEHAVIORAL"
  by code_simp

text \<open>
  Claim C9: for every text, \<^verbatim>\<open>detailedClassify\<close> resolves to the category that
  \<^verbatim>\<open>quickClassify\<close> returns for that text.
\<close>

theorem detailedClassify_delegates:
  "detailedClassify toLowerCase text = Resolved (quickClassify toLowerCase text)"
  by (simp add: detailedClassify_def)

section \<open>Properties of the PCM encoder\<close>

lemma trunc_toward_zero_whole: "trunc_toward_zero v = whole_ref v"
  by (simp add: trunc_toward_zero_def whole_ref_def ceiling_def)

text \<open>The whole part is the one integer between zero and the value, less than one away.\<close>

lemma whole_ref_bounds:
  "\<bar>of_int (whole_ref v)\<bar> \<le> \<bar>v\<bar> \<and> \<bar>v - of_int (whole_ref v)\<bar> < 1"
proof (cases "0 \<le> v")
  case True
  define m where "m = \<lfloor>v\<rfloor>"
  have m: "of_int m \<le> v" "v < of_int m + 1" "(0::rat) \<le> of_int m"
    unfolding m_def using True by (linarith, linarith, simp)
  have "whole_ref v = m" using True by (simp add: whole_ref_def m_def)
  with m show ?thesis by (auto simp: abs_if)
next
  case False
  define m where "m = \<lfloor>- v\<rfloor>"
  have m: "of_int m \<le> - v" "- v < of_int m + 1" "(0::rat) \<le> of_int m"
    unfolding m_def using False by (linarith, linarith, simp)
  have "whole_ref v = - m" using False by (simp add: whole_ref_def m_def)
  with m show ?thesis by (auto simp: abs_if)
qed

lemma whole_ref_unique:
  assumes "\<bar>of_int n\<bar> \<le> \<bar>v\<bar>" and "\<bar>v - of_int n\<bar> < 1"
  shows "n = whole_ref v"
proof (cases "0 \<le> v")
  case True
  with assms have "of_int n \<le> v" "v < of_int n + 1" by (auto simp: abs_if split: if_splits)
  then have "\<lfloor>v\<rfloor> = n" by (simp add: floor_unique)
  with True show ?thesis by (simp add: whole_ref_def)
next
  case False
  with assms have "of_int (- n) \<le> - v" "- v < of_int (- n) + 1"
    by (auto simp: abs_if split: if_splits)
  then have "\<lfloor>- v\<rfloor> = - n" by (intro floor_unique) auto
  with False show ?thesis by (simp add: whole_ref_def)
qed

lemma clamp_sample:
  "Math_max (Finite (- 1)) (Math_min (Finite 1) x)
     = (case clamp_ref x of Some s \<Rightarrow> Finite s | None \<Rightarrow> NaN)"
  by (cases x) (auto simp: Math_max_def Math_min_def)

lemma pcm16_sample_ref:
  "pcm16_sample x = (case encode_ref x of Some n \<Rightarrow> word_of_int n | None \<Rightarrow> 0)"
  by (cases x)
    (auto simp: pcm16_sample_def clamp_sample encode_ref_def scale_ref_def Let_def
      trunc_toward_zero_whole)

lemma clamp_ref_range: "clamp_ref x = Some s \<Longrightarrow> - 1 \<le> s \<and> s \<le> 1"
  by (cases x) (auto split: if_splits)

text \<open>The scaled value of a clamped sample, its fraction dropped, fits 16 signed bits.\<close>

lemma whole_scaled_range:
  assumes "- 1 \<le> s" and "s \<le> 1"
  shows "- 32768 \<le> whole_ref (scale_ref s) \<and> whole_ref (scale_ref s) \<le> 32767"
proof (cases "s < 0")
  case True
  then have v: "scale_ref s = s * 32768" by (simp add: scale_ref_def)
  have neg: "\<not> 0 \<le> s * 32768" using True by auto
  have "0 \<le> - (s * 32768)" "- (s * 32768) \<le> 32768" using assms True by auto
  then have "0 \<le> \<lfloor>- (s * 32768)\<rfloor>" "\<lfloor>- (s * 32768)\<rfloor> \<le> 32768"
    by (simp_all add: floor_le_iff)
  moreover have "whole_ref (s * 32768) = - \<lfloor>- (s * 32768)\<rfloor>"
    using neg by (simp only: whole_ref_def if_False)
  ultimately show ?thesis unfolding v by linarith
next
  case False
  then have v: "scale_ref s = s * 32767" by (simp add: scale_ref_def)
  have "0 \<le> s * 32767" "s * 32767 \<le> 32767" using assms False by auto
  then show ?thesis unfolding v whole_ref_def by (auto simp: floor_le_iff le_floor_iff)
qed

lemma encode_ref_range:
  "encode_ref x = Some n \<Longrightarrow> - 32768 \<le> n \<and> n \<le> 32767"
  using whole_scaled_range clamp_ref_range by (auto simp: encode_ref_def)

lemma sint_pcm16_sample:
  "sint (pcm16_sample x) = (case encode_ref x of Some n \<Rightarrow> n | None \<Rightarrow> 0)"
proof (cases "encode_ref x")
  case None
  then show ?thesis by (simp add: pcm16_sample_ref)
next
  case (Some n)
  with encode_ref_range [OF Some] show ?thesis
    by (simp add: pcm16_sample_ref sint_sbintrunc' signed_take_bit_int_eq_self)
qed

lemma low_byte: "(ucast (word_of_int n :: 16 word) :: 8 word) = word_of_int (n mod 256)"
proof -
  have "n mod 256 = take_bit 8 n" by (simp add: take_bit_eq_mod)
  then show ?thesis
    by (auto intro!: bit_word_eqI simp: bit_simps)
qed

lemma high_byte:
  "(ucast (drop_bit 8 (word_of_int n :: 16 word)) :: 8 word) = word_of_int (n div 256 mod 256)"
proof -
  have "n div 256 mod 256 = take_bit 8 (drop_bit 8 n)"
    by (simp add: take_bit_eq_mod drop_bit_eq_div)
  then show ?thesis
    by (auto intro!: bit_word_eqI simp: bit_simps)
qed

lemma int16_bytes_le: "int16_bytes (word_of_int n) = le16_ref n"
  by (simp add: int16_bytes_def le16_ref_def low_byte high_byte)

lemma int16_bytes_sample:
  "int16_bytes (pcm16_sample x) = (case encode_ref x of Some n \<Rightarrow> le16_ref n | None \<Rightarrow> [0, 0])"
  by (cases "encode_ref x") (simp_all add: pcm16_sample_ref int16_bytes_le, simp add: int16_bytes_def)

lemma sint_pcm16_fill: "map sint (pcm16_fill xs) = ints_ref 0 xs"
  by (induction xs) (simp_all add: ints_ref_def sint_pcm16_sample)

lemma convertToPCM16_ref: "convertToPCM16 xs = pcm_reference [0, 0] xs"
  by (induction xs) (simp_all add: convertToPCM16_def pcm_reference_def int16_bytes_sample)

lemma length_convertToPCM16: "length (convertToPCM16 xs) = 2 * length xs"
  by (induction xs) (simp_all add: convertToPCM16_def int16_bytes_def)

text \<open>
  The stored integer of a finite sample, said without the reference: with \<open>s\<close> the sample
  clamped and \<open>v\<close> the value scaled, it lies between zero and \<open>v\<close>, less than one from \<open>v\<close>.
\<close>

lemma pcm16_sample_between:
  "(let s = max (- 1) (min 1 x); v = (if s < 0 then s * 32768 else s * 32767);
        n = sint (pcm16_sample (Finite x))
    in \<bar>of_int n\<bar> \<le> \<bar>v\<bar> \<and> \<bar>v - of_int n\<bar> < 1)"
proof -
  have c: "(if x < - 1 then - 1 else if 1 < x then 1 else x) = max (- 1) (min 1 x)" by auto
  have "sint (pcm16_sample (Finite x))
      = whole_ref (scale_ref (max (- 1) (min 1 x)))"
    by (simp add: sint_pcm16_sample encode_ref_def c del: max_less_iff_conj)
  then show ?thesis
    using whole_ref_bounds [of "scale_ref (max (- 1) (min 1 x))"]
    by (simp add: Let_def scale_ref_def)
qed

lemma encode_ref_examples:
  "encode_ref (Finite 1) = Some 32767" "encode_ref (Finite (- 1)) = Some (- 32768)"
  "encode_ref (Finite 2) = Some 32767" "encode_ref (Finite (1 / 2)) = Some 16383"
  "encode_ref (Finite (- 1 / 65536)) = Some 0" "encode_ref (Finite (- 3 / 4)) = Some (- 24576)"
  "encode_ref PosInfinity = Some 32767" "encode_ref NegInfinity = Some (- 32768)"
  "encode_ref NaN = None"
  by code_simp+

text \<open>
  Claim C3: on every sequence of samples the conversion yields the bytes of the reference
  (clamp to \<open>[-1, 1]\<close>, scale a negative value by 32768 and any other by 32767, two bytes
  per sample with the low byte first), and the 16-bit integers it stores are the
  reference's integers; a sample that is not a number, of which the reference says nothing,
  is stored as 0. The stored integer of a finite sample lies between zero and the scaled
  value, less than one away from it. In particular 1.0 is stored as 32767, -1.0 as -32768,
  0.5 as 16383, and 2.0 gives the bytes of 1.0.
\<close>

theorem convertToPCM16_reference:
  "convertToPCM16 xs = pcm_reference [0, 0] xs \<and>
   map sint (pcm16_fill xs) = ints_ref 0 xs \<and>
   (let s = max (- 1) (min 1 x); v = (if s < 0 then s * 32768 else s * 32767);
        n = sint (pcm16_sample (Finite x))
    in \<bar>of_int n\<bar> \<le> \<bar>v\<bar> \<and> \<bar>v - of_int n\<bar> < 1) \<and>
   map sint (pcm16_fill [Finite 1, Finite (- 1), Finite 2, Finite (1 / 2), Finite (- 1 / 65536)])
     = [32767, - 32768, 32767, 16383, 0] \<and>
   map sint (pcm16_fill [PosInfinity, NegInfinity, NaN]) = [32767, - 32768, 0] \<and>
   convertToPCM16 [Finite 1] = [255, 127] \<and>
   convertToPCM16 [Finite (- 1)] = [0, 128] \<and>
   convertToPCM16 [Finite 2] = convertToPCM16 [Finite 1]"
proof -
  have ints: "map sint (pcm16_fill [Finite 1, Finite (- 1), Finite 2, Finite (1 / 2), Finite (- 1 / 65536)])
      = [32767, - 32768, 32767, 16383, 0]"
    by code_simp
  have others: "map sint (pcm16_fill [PosInfinity, NegInfinity, NaN]) = [32767, - 32768, 0]"
    by code_simp
  have bytes_one: "convertToPCM16 [Finite 1] = [255, 127]"
    by code_simp
  have bytes_minus_one: "convertToPCM16 [Finite (- 1)] = [0, 128]"
    by code_simp
  have two: "convertToPCM16 [Finite 2] = convertToPCM16 [Finite 1]"
    by code_simp
  show ?thesis
    using convertToPCM16_ref [of xs] sint_pcm16_fill [of xs] pcm16_sample_between [of x]
      ints others bytes_one bytes_minus_one two
    by blast
qed

section \<open>Properties of the session manager\<close>

lemma fresh_manager_token: "sessionToken fresh_manager = JNull"
  by (simp add: fresh_manager_def new_RealtimeTranscriptionManager_def)

text \<open>A negotiation that reports failure leaves the object as it was, token included.\<close>

lemma createTranscriptionSession_failed:
  "returned (createTranscriptionSession rt m) = Inr False \<Longrightarrow>
   state_after (createTranscriptionSession rt m) = m"
  by (auto simp: createTranscriptionSession_def createOpenAISession_def createDeepSeekSession_def
      returned_def state_after_def Let_def split: sum.splits if_splits)

lemma createTranscriptionSession_token:
  "returned (createTranscriptionSession rt m) = Inr True \<Longrightarrow>
   truthy (sessionToken (state_after (createTranscriptionSession rt m)))"
  by (auto simp: createTranscriptionSession_def createOpenAISession_def createDeepSeekSession_def
      returned_def state_after_def Let_def split: sum.splits if_splits)

lemma connect_falsy_token:
  "\<not> truthy (sessionToken m) \<Longrightarrow>
   connectToWebSocket rt m = (Inr False, m, [ConsoleError ''No session token available''])"
  by (simp add: connectToWebSocket_def)

text \<open>The two sample managers, as the runs that define them leave them.\<close>

lemma connected_manager_eq:
  "connected_manager =
     \<lparr>apiKey = ''sk-test'', provider = ''openai'', wsConnection = Some 1,
      sessionToken = JStr ''tok123'', isConnected = True\<rparr>"
  by code_simp

lemma twice_connected_manager_eq:
  "twice_connected_manager =
     \<lparr>apiKey = ''sk-test'', provider = ''openai'', wsConnection = None,
      sessionToken = JStr ''tok123'', isConnected = True\<rparr>"
  by code_simp

text \<open>
  Claim C1, as the code has it. The handler of a transport failure logs and emits
  \<^verbatim>\<open>error\<close> with the failure; when the manager has no listener for \<^verbatim>\<open>error\<close> the
  failure is thrown out of the handler instead. Either way it leaves every field as it was,
  \<^verbatim>\<open>isConnected\<close> included. The handler of a close sets \<^verbatim>\<open>isConnected\<close> to false
  and emits \<^verbatim>\<open>disconnected\<close>.
\<close>

theorem transport_events:
  "on_error True m e = (Inr (), m, [ConsoleError ''WebSocket error'', Emit ''error'' [JError e]]) \<and>
   on_error False m e = (Inl e, m, [ConsoleError ''WebSocket error'']) \<and>
   state_after (on_error listening m e) = m \<and>
   isActive (state_after (on_error listening m e)) = isActive m \<and>
   on_close m = (Inr (), m\<lparr>isConnected := False\<rparr>, [Emit ''disconnected'' []]) \<and>
   isActive (state_after (on_close m)) = False"
  by (simp add: on_error_def on_close_def isActive_def state_after_def)

text \<open>
  Claim C1 as it is worded has the failure event end the connected state too. On the
  connected sample manager, with a listener for \<^verbatim>\<open>error\<close> attached, a failure is logged
  and emitted, and the manager is still active afterwards; without a listener the failure is
  thrown, and the manager is still active as well.
\<close>

theorem error_event_stays_connected:
  "isActive connected_manager \<and>
   on_error True connected_manager (Fault ''ECONNRESET'')
     = (Inr (), connected_manager,
        [ConsoleError ''WebSocket error'', Emit ''error'' [JError (Fault ''ECONNRESET'')]]) \<and>
   isActive (state_after (on_error True connected_manager (Fault ''ECONNRESET''))) \<and>
   returned (on_error False connected_manager (Fault ''ECONNRESET'')) = Inl (Fault ''ECONNRESET'') \<and>
   isActive (state_after (on_error False connected_manager (Fault ''ECONNRESET'')))"
  by (simp add: connected_manager_eq on_error_def isActive_def state_after_def returned_def)

text \<open>
  Claim C4: for every frame, \<^verbatim>\<open>sendAudioChunk\<close> returns false, changes nothing and has
  no effect (the frame is dropped, not queued) when there is no socket or the manager is not
  marked connected; when it is connected and the encoding or the send throws, it logs and
  returns false; and in no case does a fault escape the call.
\<close>

theorem sendAudioChunk_false:
  "(wsConnection m = None \<or> \<not> isConnected m
      \<longrightarrow> sendAudioChunk rt m audioData = (Inr False, m, [])) \<and>
   (wsConnection m = Some w \<and> isConnected m \<and> toBase64 rt audioData = Inl e
      \<longrightarrow> sendAudioChunk rt m audioData = (Inr False, m, [ConsoleError ''Error sending audio chunk''])) \<and>
   (wsConnection m = Some w \<and> isConnected m \<and> toBase64 rt audioData = Inr b64 \<and>
    ws_send rt w (audioMessage rt m b64) = Some e
      \<longrightarrow> sendAudioChunk rt m audioData = (Inr False, m, [ConsoleError ''Error sending audio chunk''])) \<and>
   (\<exists>b. returned (sendAudioChunk rt m audioData) = Inr b)"
  by (auto simp: sendAudioChunk_def sendAudioChunk_try_def returned_def
      split: option.splits sum.splits)

text \<open>
  The three cases on sample managers: not yet connected, a fault of the encoder, and a
  fault of \<^verbatim>\<open>send\<close>.
\<close>

theorem sendAudioChunk_false_witness:
  "sendAudioChunk (sample_runtime None None 1) negotiated_manager [255, 127]
     = (Inr False, negotiated_manager, []) \<and>
   sendAudioChunk (sample_runtime (Some (Fault ''ERR_STRING_TOO_LONG'')) None 1) connected_manager [255, 127]
     = (Inr False, connected_manager, [ConsoleError ''Error sending audio chunk'']) \<and>
   sendAudioChunk (sample_runtime None (Some (Fault ''WebSocket is not open'')) 1) connected_manager [255, 127]
     = (Inr False, connected_manager, [ConsoleError ''Error sending audio chunk''])"
proof -
  let ?ok = "sample_runtime None None 1"
  let ?enc = "sample_runtime (Some (Fault ''ERR_STRING_TOO_LONG'')) None 1"
  let ?snd = "sample_runtime None (Some (Fault ''WebSocket is not open'')) 1"
  have idle: "wsConnection negotiated_manager = None \<or> \<not> isConnected negotiated_manager"
    by code_simp
  have conn: "wsConnection connected_manager = Some 1 \<and> isConnected connected_manager"
    by (simp add: connected_manager_eq)
  have enc: "toBase64 ?enc [255, 127] = Inl (Fault ''ERR_STRING_TOO_LONG'')"
    by (simp add: sample_runtime_def)
  have snd: "toBase64 ?snd [255, 127] = Inr ''/38='' \<and>
      ws_send ?snd 1 (audioMessage ?snd connected_manager ''/38='') = Some (Fault ''WebSocket is not open'')"
    by code_simp
  from idle sendAudioChunk_false [of negotiated_manager ?ok "[255, 127]"]
  have "sendAudioChunk ?ok negotiated_manager [255, 127] = (Inr False, negotiated_manager, [])"
    by blast
  moreover from conn enc
    sendAudioChunk_false [of connected_manager ?enc "[255, 127]" 1 "Fault ''ERR_STRING_TOO_LONG''"]
  have "sendAudioChunk ?enc connected_manager [255, 127]
      = (Inr False, connected_manager, [ConsoleError ''Error sending audio chunk''])"
    by blast
  moreover from conn snd
    sendAudioChunk_false [of connected_manager ?snd "[255, 127]" 1 "Fault ''WebSocket is not open''" "''/38=''"]
  have "sendAudioChunk ?snd connected_manager [255, 127]
      = (Inr False, connected_manager, [ConsoleError ''Error sending audio chunk''])"
    by blast
  ultimately show ?thesis by blast
qed

text \<open>
  Claim C5: in every state that holds no session token, \<^verbatim>\<open>connectToWebSocket\<close> returns
  false, leaves the object as it was, and does nothing but log: it makes no socket and
  registers no handler, so no \<^verbatim>\<open>connected\<close> event can follow.
\<close>

theorem connect_without_token:
  "sessionToken m = JNull \<Longrightarrow>
   returned (connectToWebSocket rt m) = Inr False \<and>
   state_after (connectToWebSocket rt m) = m \<and>
   effects_of (connectToWebSocket rt m) = [ConsoleError ''No session token available'']"
  by (simp add: connect_falsy_token returned_def state_after_def effects_of_def)

text \<open>A manager fresh from its constructor holds no token.\<close>

theorem connect_without_token_witness:
  "sessionToken fresh_manager = JNull \<and>
   returned (connectToWebSocket (sample_runtime None None 1) fresh_manager) = Inr False \<and>
   state_after (connectToWebSocket (sample_runtime None None 1) fresh_manager) = fresh_manager \<and>
   effects_of (connectToWebSocket (sample_runtime None None 1) fresh_manager)
     = [ConsoleError ''No session token available'']"
  using connect_without_token [OF fresh_manager_token, of "sample_runtime None None 1"]
  by (simp add: fresh_manager_token)

text \<open>
  Claim C6: for every inbound frame that \<^verbatim>\<open>JSON.parse\<close> rejects, the message handler
  returns normally, leaves the object as it was (connection flag and socket included), and
  does nothing but log the failure; it does not close the socket.
\<close>

theorem on_message_malformed:
  "JSON_parse rt data = Inl e \<Longrightarrow>
   returned (on_message rt m data) = Inr () \<and>
   state_after (on_message rt m data) = m \<and>
   effects_of (on_message rt m data) = [ConsoleError ''Error processing WebSocket message'']"
  by (simp add: on_message_def on_message_try_def returned_def state_after_def effects_of_def)

text \<open>A frame the sample parser rejects, on the connected sample manager.\<close>

theorem on_message_malformed_witness:
  "JSON_parse (sample_runtime None None 1) ''{type: oops'' = Inl SyntaxError \<and>
   returned (on_message (sample_runtime None None 1) connected_manager ''{type: oops'') = Inr () \<and>
   state_after (on_message (sample_runtime None None 1) connected_manager ''{type: oops'')
     = connected_manager \<and>
   effects_of (on_message (sample_runtime None None 1) connected_manager ''{type: oops'')
     = [ConsoleError ''Error processing WebSocket message'']"
proof -
  have bad: "JSON_parse (sample_runtime None None 1) ''{type: oops'' = Inl SyntaxError"
    by (simp add: sample_runtime_def)
  from on_message_malformed [OF bad, of connected_manager] bad show ?thesis by simp
qed

text \<open>
  \<^verbatim>\<open>close\<close> with a socket held closes it and clears both fields; after any
  \<^verbatim>\<open>close\<close> the socket field is empty, and a second call changes nothing and does
  nothing.
\<close>

lemma close_with_socket:
  "wsConnection m = Some w \<Longrightarrow>
   close m = (Inr (), m\<lparr>wsConnection := None, isConnected := False\<rparr>, [WsClose w])"
  by (simp add: close_def)

lemma close_twice:
  "wsConnection (state_after (close m)) = None \<and>
   close (state_after (close m)) = (Inr (), state_after (close m), [])"
  by (cases "wsConnection m") (simp_all add: close_def state_after_def)

text \<open>
  In a state whose flag is set only while a socket is held, \<^verbatim>\<open>close\<close> does end the
  connected state.
\<close>

lemma close_ends_connection_when_socket_held:
  assumes "isConnected m \<Longrightarrow> wsConnection m \<noteq> None"
  shows "isActive (state_after (close m)) = False"
  using assms by (cases "wsConnection m") (auto simp: close_def state_after_def isActive_def)

text \<open>
  The handler of \<^verbatim>\<open>open\<close> sets the flag whether or not the manager still holds a
  socket: an \<^verbatim>\<open>open\<close> that arrives after \<^verbatim>\<open>close\<close>, from a socket the manager made
  earlier and no longer holds, leaves the flag set with no socket in the field.
\<close>

lemma on_open_without_socket:
  "wsConnection m = None \<Longrightarrow>
   state_after (on_open rt m) = m\<lparr>isConnected := True\<rparr> \<and>
   wsConnection (state_after (on_open rt m)) = None"
  by (simp add: on_open_def state_after_def Let_def)

text \<open>
  Claim C7 has \<^verbatim>\<open>close\<close> clear the connection state from any state. The manager that
  connected twice, was closed, and then saw its first socket open holds no socket and is
  marked connected. \<^verbatim>\<open>close\<close> does nothing there: the assignment that resets the flag
  sits under the test of the socket field, so the manager is still active afterwards.
\<close>

theorem close_leaves_flag_without_socket:
  "wsConnection twice_connected_manager = None \<and>
   isActive twice_connected_manager \<and>
   close twice_connected_manager = (Inr (), twice_connected_manager, []) \<and>
   isActive (state_after (close twice_connected_manager))"
  by (simp add: twice_connected_manager_eq close_def isActive_def state_after_def)

text \<open>
  Claim C10: for every state and every frame, the object after \<^verbatim>\<open>sendAudioChunk\<close> is
  the object before it, field by field, whatever the call returns.
\<close>

theorem sendAudioChunk_frame:
  "state_after (sendAudioChunk rt m audioData) = m"
  by (simp add: sendAudioChunk_def state_after_def split: option.splits sum.splits)

section \<open>Properties of the capture pipeline\<close>

text \<open>
  Claim C8: when \<^verbatim>\<open>startCapturing\<close> is called while not capturing and the enumeration
  yields no source, it returns false, logs, and leaves the object as it was, so
  \<^verbatim>\<open>isActive\<close> stays false.
\<close>

theorem startCapturing_no_sources:
  "\<not> isCapturing c \<Longrightarrow> getSources pf = Inr [] \<Longrightarrow>
   returned (startCapturing mgr pf c) = Inr False \<and>
   state_after (startCapturing mgr pf c) = c \<and>
   effects_of (startCapturing mgr pf c) = [ConsoleError ''No screen or window sources found''] \<and>
   \<not> SystemAudioCapture_isActive (state_after (startCapturing mgr pf c))"
  by (simp add: startCapturing_def returned_def state_after_def effects_of_def
      SystemAudioCapture_isActive_def)

text \<open>A fresh capture object on a platform without sources.\<close>

theorem startCapturing_no_sources_witness:
  "\<not> isCapturing new_SystemAudioCapture \<and> getSources bare_platform = Inr [] \<and>
   returned (startCapturing connected_manager bare_platform new_SystemAudioCapture) = Inr False \<and>
   state_after (startCapturing connected_manager bare_platform new_SystemAudioCapture)
     = new_SystemAudioCapture \<and>
   \<not> SystemAudioCapture_isActive
       (state_after (startCapturing connected_manager bare_platform new_SystemAudioCapture))"
proof -
  have idle: "\<not> isCapturing new_SystemAudioCapture" by (simp add: new_SystemAudioCapture_def)
  have empty: "getSources bare_platform = Inr []" by (simp add: bare_platform_def)
  from startCapturing_no_sources [OF idle empty, of connected_manager] idle empty
  show ?thesis by blast
qed


end
